theory Spec2Isabelle
  imports Complex_Main "HOL-Library.Multiset"
begin

section \<open>Data model of app.py\<close>

text \<open>
  Calendar days are day ordinals (\<open>datetime.date\<close> values, and the ISO text SQLite keeps
  for them, which \<open>strptime\<close> and \<open>pd.to_datetime\<close> read back); a difference of
  two dates in days is the difference of the ordinals. Python floats are modelled as exact
  reals, Python integers as \<open>int\<close>.
\<close>

type_synonym date = int

text \<open>
  The three tables of \<open>init_database\<close>. Of \<open>users\<close> only the columns that the functions
  below read are kept; the row ids and timestamps of \<open>carbon_footprint\<close> and
  \<open>user_streaks\<close> are never read and are left out. A NULL \<open>last_entry_date\<close> is
  \<open>None\<close>.
\<close>

record user_row =
  u_id :: int
  username :: string
  email :: string

record footprint_row =
  cf_user_id :: int
  cf_date :: date
  electricity_kwh :: real
  natural_gas_therms :: real
  water_gallons :: real
  car_miles :: real
  public_transit_miles :: real
  flights_short_haul :: real
  flights_long_haul :: real
  meat_servings :: real
  dairy_servings :: real
  veg_servings :: real
  total_carbon :: real

record streak_row =
  s_user_id :: int
  current_streak :: int
  longest_streak :: int
  last_entry_date :: "date option"
  total_entries :: int

record db =
  users :: "user_row list"
  carbon_footprint :: "footprint_row list"
  user_streaks :: "streak_row list"

text \<open>
  The dictionary \<open>data\<close> handed to the calculator and to \<open>save_carbon_footprint\<close>: its
  \<open>'date'\<close> entry, and its numeric entries by key.
\<close>

record footprint_data =
  date_entry :: "date option"
  quantity :: "string \<rightharpoonup> real"

section \<open>Carbon footprint calculation functions\<close>

definition calculate_electricity_carbon :: "real \<Rightarrow> real" where
  "calculate_electricity_carbon kwh = kwh * 0.4"

definition calculate_natural_gas_carbon :: "real \<Rightarrow> real" where
  "calculate_natural_gas_carbon therms = therms * 5.3"

definition calculate_water_carbon :: "real \<Rightarrow> real" where
  "calculate_water_carbon gallons = gallons * 0.0002"

definition calculate_car_carbon :: "real \<Rightarrow> real \<Rightarrow> real" where
  "calculate_car_carbon miles efficiency = (let gallons = miles / efficiency in gallons * 8.887)"

definition calculate_public_transit_carbon :: "real \<Rightarrow> real" where
  "calculate_public_transit_carbon miles = miles * 0.17"

definition calculate_flight_carbon :: "real \<Rightarrow> real \<Rightarrow> real" where
  "calculate_flight_carbon short_flights long_flights = (short_flights * 500) + (long_flights * 1600)"

definition calculate_food_carbon :: "real \<Rightarrow> real \<Rightarrow> real \<Rightarrow> real" where
  "calculate_food_carbon meat dairy veg =
     (let meat_carbon = meat * 3.0; dairy_carbon = dairy * 0.7; veg_carbon = veg * 0.2
      in meat_carbon + dairy_carbon + veg_carbon)"

text \<open>\<open>data.get(k)\<close> used as a condition: true when the key is present with a non-zero value.\<close>

definition truthy :: "(string \<rightharpoonup> real) \<Rightarrow> string \<Rightarrow> bool" where
  "truthy data k = (case data k of None \<Rightarrow> False | Some v \<Rightarrow> v \<noteq> 0)"

text \<open>\<open>data.get(k, 0)\<close>.\<close>

definition get0 :: "(string \<rightharpoonup> real) \<Rightarrow> string \<Rightarrow> real" where
  "get0 data k = (case data k of None \<Rightarrow> 0 | Some v \<Rightarrow> v)"

text \<open>
  One \<open>if data.get(k): total += f(data[k])\<close> statement; \<open>data[k]\<close> is only read when the
  key is present.
\<close>

definition add_if :: "(string \<rightharpoonup> real) \<Rightarrow> string \<Rightarrow> (real \<Rightarrow> real) \<Rightarrow> real \<Rightarrow> real" where
  "add_if data k f tot =
     (case data k of None \<Rightarrow> tot | Some v \<Rightarrow> if v \<noteq> 0 then tot + f v else tot)"

definition calculate_total_carbon :: "(string \<rightharpoonup> real) \<Rightarrow> real" where
  "calculate_total_carbon data =
     (let tot = 0;
          tot = add_if data ''electricity_kwh'' calculate_electricity_carbon tot;
          tot = add_if data ''natural_gas_therms'' calculate_natural_gas_carbon tot;
          tot = add_if data ''water_gallons'' calculate_water_carbon tot;
          tot = add_if data ''car_miles'' (\<lambda>miles. calculate_car_carbon miles 25) tot;
          tot = add_if data ''public_transit_miles'' calculate_public_transit_carbon tot;
          tot = (if truthy data ''flights_short_haul'' \<or> truthy data ''flights_long_haul''
                   then tot + calculate_flight_carbon
                          (get0 data ''flights_short_haul'') (get0 data ''flights_long_haul'')
                   else tot);
          tot = (if truthy data ''meat_servings'' \<or> truthy data ''dairy_servings''
                      \<or> truthy data ''veg_servings''
                   then tot + calculate_food_carbon
                          (get0 data ''meat_servings'') (get0 data ''dairy_servings'')
                          (get0 data ''veg_servings'')
                   else tot)
      in tot)"

section \<open>Database access\<close>

text \<open>
  \<open>run_query\<close> catches every exception of the database, reports it and returns
  \<open>None\<close>; a statement that raised has changed no table, and a written statement is
  committed before \<open>run_query\<close> returns. The flag \<open>ok\<close> of each call says whether the
  database executes the statement. \<open>run_query_fetch\<close> is the call with \<open>fetch=True\<close> (its
  argument is the rows the statement selects), \<open>run_query_write\<close> the call with
  \<open>fetch=False\<close> (its arguments are the database after and before the statement).
\<close>

definition run_query_fetch :: "bool \<Rightarrow> 'a list \<Rightarrow> 'a list option" where
  "run_query_fetch ok rows = (if ok then Some rows else None)"

definition run_query_write :: "bool \<Rightarrow> db \<Rightarrow> db \<Rightarrow> db" where
  "run_query_write ok after before = (if ok then after else before)"

text \<open>The row \<open>INSERT INTO user_streaks (user_id) VALUES (?)\<close> makes, from the column defaults.\<close>

definition default_streak :: "int \<Rightarrow> streak_row" where
  "default_streak uid =
     \<lparr>s_user_id = uid, current_streak = 0, longest_streak = 0, last_entry_date = None,
      total_entries = 0\<rparr>"

text \<open>\<open>init_database\<close> on a new database file: the tables, the admin user and its streak row.\<close>

definition init_database :: db where
  "init_database =
     \<lparr>users = [\<lparr>u_id = 1, username = ''admin'', email = ''admin@carbontracker.com''\<rparr>],
      carbon_footprint = [],
      user_streaks = [default_streak 1]\<rparr>"

text \<open>\<open>INTEGER PRIMARY KEY AUTOINCREMENT\<close>: one more than the largest id (no row is ever deleted).\<close>

definition next_user_id :: "user_row list \<Rightarrow> int" where
  "next_user_id us = 1 + fold max (map u_id us) 0"

text \<open>
  \<open>register_user\<close>; the message of the returned pair is left out. The \<open>INSERT\<close> into
  \<open>users\<close> is refused by the \<open>UNIQUE\<close> constraints on username and email.
\<close>

definition register_user ::
  "bool \<Rightarrow> bool \<Rightarrow> bool \<Rightarrow> bool \<Rightarrow> string \<Rightarrow> string \<Rightarrow> db \<Rightarrow> bool \<times> db" where
  "register_user ok1 ok2 ok3 ok4 uname mail d =
     (let result = run_query_fetch ok1
                     [int (length (filter (\<lambda>u. username u = uname \<or> email u = mail) (users d)))]
      in if (case result of Some (c # _) \<Rightarrow> c > 0 | _ \<Rightarrow> False) then (False, d)
         else
           let uniq = list_all (\<lambda>u. username u \<noteq> uname \<and> email u \<noteq> mail) (users d);
               d1 = run_query_write (ok2 \<and> uniq)
                      (d\<lparr>users := users d @
                           [\<lparr>u_id = next_user_id (users d), username = uname, email = mail\<rparr>]\<rparr>) d;
               user_result = run_query_fetch ok3 (filter (\<lambda>u. username u = uname) (users d1))
           in (case user_result of
                 Some (u # _) \<Rightarrow>
                   (True, run_query_write ok4
                            (d1\<lparr>user_streaks := user_streaks d1 @ [default_streak (u_id u)]\<rparr>) d1)
               | _ \<Rightarrow> (True, d1)))"

section \<open>Streak functions\<close>

text \<open>
  The end of \<open>update_user_streak\<close>: the longest streak, the entry count and the
  \<open>UPDATE ... WHERE user_id = ?\<close>, which writes every row of the user.
\<close>

definition store_streak :: "bool \<Rightarrow> int \<Rightarrow> date \<Rightarrow> int \<Rightarrow> int \<Rightarrow> int \<Rightarrow> db \<Rightarrow> db" where
  "store_streak wr_ok uid entry_date current longest entries d =
     (let longest = max longest current;
          entries = entries + 1
      in run_query_write wr_ok
           (d\<lparr>user_streaks :=
                map (\<lambda>r. if s_user_id r = uid
                          then r\<lparr>current_streak := current, longest_streak := longest,
                                 last_entry_date := Some entry_date, total_entries := entries\<rparr>
                          else r)
                    (user_streaks d)\<rparr>) d)"

definition update_user_streak :: "bool \<Rightarrow> bool \<Rightarrow> int \<Rightarrow> date \<Rightarrow> db \<Rightarrow> db" where
  "update_user_streak sel_ok wr_ok uid entry_date d =
     (case run_query_fetch sel_ok (filter (\<lambda>r. s_user_id r = uid) (user_streaks d)) of
        Some (streak_data # _) \<Rightarrow>
          (case last_entry_date streak_data of
             Some last_date \<Rightarrow>
               (let days_diff = entry_date - last_date
                in if days_diff = 1
                   then store_streak wr_ok uid entry_date (current_streak streak_data + 1)
                          (longest_streak streak_data) (total_entries streak_data) d
                   else if days_diff = 0 then d
                   else store_streak wr_ok uid entry_date 1
                          (longest_streak streak_data) (total_entries streak_data) d)
           | None \<Rightarrow>
               store_streak wr_ok uid entry_date 1
                 (longest_streak streak_data) (total_entries streak_data) d)
      | _ \<Rightarrow>
          run_query_write wr_ok
            (d\<lparr>user_streaks := user_streaks d @
                 [\<lparr>s_user_id = uid, current_streak = 1, longest_streak = 1,
                   last_entry_date = Some entry_date, total_entries = 1\<rparr>]\<rparr>) d)"

definition get_user_streak :: "bool \<Rightarrow> int \<Rightarrow> db \<Rightarrow> streak_row option" where
  "get_user_streak ok uid d =
     (case run_query_fetch ok (filter (\<lambda>r. s_user_id r = uid) (user_streaks d)) of
        Some (r # _) \<Rightarrow> Some r
      | _ \<Rightarrow> None)"

section \<open>Database operations\<close>

text \<open>The row \<open>save_carbon_footprint\<close> inserts: \<open>data.get(k, 0)\<close> for each quantity.\<close>

definition entry_row :: "int \<Rightarrow> date \<Rightarrow> (string \<rightharpoonup> real) \<Rightarrow> real \<Rightarrow> footprint_row" where
  "entry_row uid dt data tc =
     \<lparr>cf_user_id = uid, cf_date = dt,
      electricity_kwh = get0 data ''electricity_kwh'',
      natural_gas_therms = get0 data ''natural_gas_therms'',
      water_gallons = get0 data ''water_gallons'',
      car_miles = get0 data ''car_miles'',
      public_transit_miles = get0 data ''public_transit_miles'',
      flights_short_haul = get0 data ''flights_short_haul'',
      flights_long_haul = get0 data ''flights_long_haul'',
      meat_servings = get0 data ''meat_servings'',
      dairy_servings = get0 data ''dairy_servings'',
      veg_servings = get0 data ''veg_servings'',
      total_carbon = tc\<rparr>"

text \<open>
  \<open>save_carbon_footprint\<close>, with \<open>today\<close> for \<open>datetime.date.today()\<close>. Database failures
  never reach its exception handler, since \<open>run_query\<close> has caught them: the function goes on
  to the streak update and returns \<open>True\<close>. On dates and counters of the types above
  \<open>update_user_streak\<close> raises nothing either, so the handler's \<open>return False\<close> has no
  branch here.
\<close>

definition save_carbon_footprint ::
  "bool \<Rightarrow> bool \<Rightarrow> bool \<Rightarrow> date \<Rightarrow> int \<Rightarrow> footprint_data \<Rightarrow> db \<Rightarrow> bool \<times> db" where
  "save_carbon_footprint ins_ok sel_ok wr_ok today uid data d =
     (let tc = calculate_total_carbon (quantity data);
          dt = (case date_entry data of None \<Rightarrow> today | Some x \<Rightarrow> x);
          d1 = run_query_write ins_ok
                 (d\<lparr>carbon_footprint := carbon_footprint d @ [entry_row uid dt (quantity data) tc]\<rparr>) d;
          d2 = update_user_streak sel_ok wr_ok uid dt d1
      in (True, d2))"

text \<open>\<open>get_user_footprint_history\<close>: the rows of the user, \<open>ORDER BY date DESC\<close>.\<close>

definition get_user_footprint_history :: "bool \<Rightarrow> int \<Rightarrow> db \<Rightarrow> footprint_row list" where
  "get_user_footprint_history ok uid d =
     (case run_query_fetch ok
             (rev (sort_key cf_date (filter (\<lambda>r. cf_user_id r = uid) (carbon_footprint d)))) of
        Some results \<Rightarrow> results
      | None \<Rightarrow> [])"

section \<open>Dashboard statistics\<close>

record stats =
  stats_total_entries :: nat
  stats_total_carbon :: real
  avg_carbon :: real
  min_carbon :: real
  max_carbon :: real
  recent_avg :: real
  previous_avg :: real
  trend :: string
  category_breakdown :: "(string \<times> real) list"

text \<open>The mean of a non-empty column.\<close>

definition mean :: "real list \<Rightarrow> real" where
  "mean xs = sum_list xs / real (length xs)"

definition get_dashboard_stats :: "bool \<Rightarrow> date \<Rightarrow> int \<Rightarrow> db \<Rightarrow> stats option" where
  "get_dashboard_stats ok today uid d =
     (let history_df = get_user_footprint_history ok uid d
      in if history_df = [] then None
         else
           let totals = map total_carbon history_df;
               last_30_days = today - 30;
               prev_30_days = today - 60;
               recent_data = filter (\<lambda>r. cf_date r \<ge> last_30_days) history_df;
               previous_data =
                 filter (\<lambda>r. cf_date r \<ge> prev_30_days \<and> cf_date r < last_30_days) history_df;
               recent = (if recent_data \<noteq> [] then mean (map total_carbon recent_data) else 0);
               previous = (if previous_data \<noteq> [] then mean (map total_carbon previous_data) else 0);
               col = (\<lambda>f. sum_list (map f history_df))
           in Some
                \<lparr>stats_total_entries = length history_df,
                 stats_total_carbon = sum_list totals,
                 avg_carbon = mean totals,
                 min_carbon = fold min (tl totals) (hd totals),
                 max_carbon = fold max (tl totals) (hd totals),
                 recent_avg = recent,
                 previous_avg = previous,
                 trend = (if recent < previous then ''improving''
                          else if recent > previous then ''worsening'' else ''stable''),
                 category_breakdown =
                   [(''electricity'', col electricity_kwh * 0.4),
                    (''natural_gas'', col natural_gas_therms * 5.3),
                    (''water'', col water_gallons * 0.0002),
                    (''car'', (col car_miles / 25) * 8.887),
                    (''transit'', col public_transit_miles * 0.17),
                    (''flights'', (col flights_short_haul * 500) + (col flights_long_haul * 1600)),
                    (''food'', (col meat_servings * 3.0) + (col dairy_servings * 0.7)
                               + (col veg_servings * 0.2))]\<rparr>)"

section \<open>Runs of the application\<close>

text \<open>
  The operations that write the tables above, each with the flags of its database calls,
  and a run: a sequence of operations on the database \<open>init_database\<close> made.
  (\<open>change_password\<close> and \<open>update_user_profile\<close> only update columns of \<open>users\<close>.)
\<close>

datatype op =
    Register bool bool bool bool string string
  | Save bool bool bool date int footprint_data
  | RecordEntry bool bool int date

fun exec :: "op \<Rightarrow> db \<Rightarrow> db" where
  "exec (Register ok1 ok2 ok3 ok4 uname mail) d = snd (register_user ok1 ok2 ok3 ok4 uname mail d)"
| "exec (Save ins_ok sel_ok wr_ok today uid data) d =
     snd (save_carbon_footprint ins_ok sel_ok wr_ok today uid data d)"
| "exec (RecordEntry sel_ok wr_ok uid entry_date) d = update_user_streak sel_ok wr_ok uid entry_date d"

definition run :: "op list \<Rightarrow> db" where
  "run ops = fold exec ops init_database"

section \<open>Auxiliary definitions for the properties\<close>

text \<open>The columns the \<open>UPDATE\<close> of \<open>update_user_streak\<close> sets, on one row.\<close>

definition set_streak :: "int \<Rightarrow> int \<Rightarrow> date \<Rightarrow> int \<Rightarrow> streak_row \<Rightarrow> streak_row" where
  "set_streak c l dt n r =
     r\<lparr>current_streak := c, longest_streak := l, last_entry_date := Some dt, total_entries := n\<rparr>"

text \<open>The invariant of the streak table: no current streak exceeds the longest one.\<close>

definition streak_inv :: "db \<Rightarrow> bool" where
  "streak_inv d = list_all (\<lambda>r. current_streak r \<le> longest_streak r) (user_streaks d)"

text \<open>A small database and the streak row of its user 1, for concrete instances.\<close>

definition witness_db :: db where
  "witness_db =
     \<lparr>users = [], carbon_footprint = [],
      user_streaks =
        [\<lparr>s_user_id = 1, current_streak = 2, longest_streak = 5, last_entry_date = Some 10,
          total_entries = 7\<rparr>,
         \<lparr>s_user_id = 2, current_streak = 4, longest_streak = 4, last_entry_date = None,
          total_entries = 4\<rparr>]\<rparr>"

definition witness_row :: streak_row where
  "witness_row =
     \<lparr>s_user_id = 1, current_streak = 2, longest_streak = 5, last_entry_date = Some 10,
      total_entries = 7\<rparr>"

text \<open>A run with a registration, a saved entry and streak updates, one of them failing.\<close>

definition witness_ops :: "op list" where
  "witness_ops =
     [Register True True True True ''ann'' ''ann@example.org'',
      Save True True True 100 2 \<lparr>date_entry = Some 10, quantity = [''car_miles'' \<mapsto> 250]\<rparr>,
      RecordEntry True True 2 11,
      RecordEntry True False 2 12,
      RecordEntry True True 3 20,
      RecordEntry True True 2 20]"

text \<open>The ten quantity columns of a stored row, as a calculator input.\<close>

definition raw_fields :: "footprint_row \<Rightarrow> (string \<rightharpoonup> real)" where
  "raw_fields r =
     [''electricity_kwh'' \<mapsto> electricity_kwh r,
      ''natural_gas_therms'' \<mapsto> natural_gas_therms r,
      ''water_gallons'' \<mapsto> water_gallons r,
      ''car_miles'' \<mapsto> car_miles r,
      ''public_transit_miles'' \<mapsto> public_transit_miles r,
      ''flights_short_haul'' \<mapsto> flights_short_haul r,
      ''flights_long_haul'' \<mapsto> flights_long_haul r,
      ''meat_servings'' \<mapsto> meat_servings r,
      ''dairy_servings'' \<mapsto> dairy_servings r,
      ''veg_servings'' \<mapsto> veg_servings r]"

text \<open>\<open>data.get('date', datetime.date.today())\<close>.\<close>

definition entry_date_of :: "date \<Rightarrow> footprint_data \<Rightarrow> date" where
  "entry_date_of today data = (case date_entry data of None \<Rightarrow> today | Some x \<Rightarrow> x)"

text \<open>The data of an entry: 250 car miles on day 10.\<close>

definition witness_data :: footprint_data where
  "witness_data = \<lparr>date_entry = Some 10, quantity = [''car_miles'' \<mapsto> 250]\<rparr>"

text \<open>Data with a negative quantity: minus 100 kWh on day 10.\<close>

definition negative_data :: footprint_data where
  "negative_data = \<lparr>date_entry = Some 10, quantity = [''electricity_kwh'' \<mapsto> - 100]\<rparr>"

text \<open>The rows of one user, in table order.\<close>

definition user_rows :: "int \<Rightarrow> db \<Rightarrow> footprint_row list" where
  "user_rows uid d = filter (\<lambda>r. cf_user_id r = uid) (carbon_footprint d)"

text \<open>The mean of the stored totals of the rows dated in a window, 0 for an empty window.\<close>

definition window_mean :: "(date \<Rightarrow> bool) \<Rightarrow> footprint_row list \<Rightarrow> real" where
  "window_mean w rows =
     (let sel = filter (\<lambda>r. w (cf_date r)) rows
      in if sel = [] then 0 else mean (map total_carbon sel))"

text \<open>
  The two windows in the words of the specification: recent is
  \<open>[asOfDate - 29, asOfDate]\<close>, previous is \<open>[asOfDate - 59, asOfDate - 30]\<close>.
\<close>

definition spec_recent_window :: "date \<Rightarrow> date \<Rightarrow> bool" where
  "spec_recent_window asOfDate dt = (asOfDate - 29 \<le> dt \<and> dt \<le> asOfDate)"

definition spec_previous_window :: "date \<Rightarrow> date \<Rightarrow> bool" where
  "spec_previous_window asOfDate dt = (asOfDate - 59 \<le> dt \<and> dt \<le> asOfDate - 30)"

text \<open>
  Databases for the dashboard: one entry of user 1 dated 30 days before day 100; one dated
  the day after day 100; and a history with entries in both windows, before both, and of
  another user.
\<close>

definition boundary_db :: db where
  "boundary_db =
     \<lparr>users = [], carbon_footprint = [entry_row 1 70 [''electricity_kwh'' \<mapsto> 25] 10],
      user_streaks = []\<rparr>"

definition future_db :: db where
  "future_db =
     \<lparr>users = [], carbon_footprint = [entry_row 1 101 [''electricity_kwh'' \<mapsto> 50] 20],
      user_streaks = []\<rparr>"

definition history_db :: db where
  "history_db =
     \<lparr>users = [],
      carbon_footprint =
        [entry_row 1 20 [''electricity_kwh'' \<mapsto> 200] 80,
         entry_row 1 50 [''electricity_kwh'' \<mapsto> 75] 30,
         entry_row 2 96 [''electricity_kwh'' \<mapsto> 2500] 1000,
         entry_row 1 95 [''electricity_kwh'' \<mapsto> 25] 10,
         entry_row 1 100 [''electricity_kwh'' \<mapsto> 50] 20],
      user_streaks = []\<rparr>"

section \<open>Calculator: the total is the sum of the category formulas\<close>

lemma add_if_get0: "add_if data k f tot = tot + (if get0 data k = 0 then 0 else f (get0 data k))"
  by (simp add: add_if_def get0_def split: option.split)

lemma truthy_get0: "truthy data k \<longleftrightarrow> get0 data k \<noteq> 0"
  by (simp add: truthy_def get0_def split: option.split)

lemma calculate_total_carbon_sum:
  "calculate_total_carbon data =
     calculate_electricity_carbon (get0 data ''electricity_kwh'')
     + calculate_natural_gas_carbon (get0 data ''natural_gas_therms'')
     + calculate_water_carbon (get0 data ''water_gallons'')
     + calculate_car_carbon (get0 data ''car_miles'') 25
     + calculate_public_transit_carbon (get0 data ''public_transit_miles'')
     + calculate_flight_carbon (get0 data ''flights_short_haul'') (get0 data ''flights_long_haul'')
     + calculate_food_carbon (get0 data ''meat_servings'') (get0 data ''dairy_servings'')
         (get0 data ''veg_servings'')"
  unfolding calculate_total_carbon_def Let_def add_if_get0 truthy_get0
  by (simp add: calculate_electricity_carbon_def calculate_natural_gas_carbon_def
      calculate_water_carbon_def calculate_car_carbon_def calculate_public_transit_carbon_def
      calculate_flight_carbon_def calculate_food_carbon_def)

text \<open>
  Claim C2. For every input dictionary (so in particular for every one of non-negative
  quantities), \<open>calculate_total_carbon\<close> returns the sum of the seven category results at
  \<open>data.get(k, 0)\<close>: electricity kWh times 0.4, natural gas therms times 5.3, water gallons
  times 0.0002, car (miles / 25) times 8.887, transit miles times 0.17, flights short times
  500 plus long times 1600, food meat times 3.0 plus dairy times 0.7 plus veg times 0.2. A
  category whose inputs are all zero or absent contributes 0, the empty and the all-zero
  input give 0, and the three example totals are 40.0, 88.87 and 2100.
\<close>

theorem calculate_total_carbon_formula:
  "calculate_total_carbon data =
       calculate_electricity_carbon (get0 data ''electricity_kwh'')
     + calculate_natural_gas_carbon (get0 data ''natural_gas_therms'')
     + calculate_water_carbon (get0 data ''water_gallons'')
     + calculate_car_carbon (get0 data ''car_miles'') 25
     + calculate_public_transit_carbon (get0 data ''public_transit_miles'')
     + calculate_flight_carbon (get0 data ''flights_short_haul'') (get0 data ''flights_long_haul'')
     + calculate_food_carbon (get0 data ''meat_servings'') (get0 data ''dairy_servings'')
         (get0 data ''veg_servings'')
   \<and> calculate_electricity_carbon kwh = kwh * 0.4
   \<and> calculate_natural_gas_carbon therms = therms * 5.3
   \<and> calculate_water_carbon gallons = gallons * 0.0002
   \<and> calculate_car_carbon miles 25 = (miles / 25) * 8.887
   \<and> calculate_public_transit_carbon tmiles = tmiles * 0.17
   \<and> calculate_flight_carbon short long = short * 500 + long * 1600
   \<and> calculate_food_carbon meat dairy veg = meat * 3.0 + dairy * 0.7 + veg * 0.2
   \<and> calculate_electricity_carbon 0 = 0
   \<and> calculate_natural_gas_carbon 0 = 0
   \<and> calculate_water_carbon 0 = 0
   \<and> calculate_car_carbon 0 25 = 0
   \<and> calculate_public_transit_carbon 0 = 0
   \<and> calculate_flight_carbon 0 0 = 0
   \<and> calculate_food_carbon 0 0 0 = 0
   \<and> calculate_total_carbon Map.empty = 0
   \<and> calculate_total_carbon (\<lambda>k. Some 0) = 0
   \<and> calculate_total_carbon [''electricity_kwh'' \<mapsto> 100] = 40.0
   \<and> calculate_total_carbon [''car_miles'' \<mapsto> 250] = 88.87
   \<and> calculate_total_carbon [''flights_short_haul'' \<mapsto> 1, ''flights_long_haul'' \<mapsto> 1] = 2100"
proof -
  have cats:
    "calculate_electricity_carbon kwh = kwh * 0.4"
    "calculate_natural_gas_carbon therms = therms * 5.3"
    "calculate_water_carbon gallons = gallons * 0.0002"
    "calculate_car_carbon miles 25 = (miles / 25) * 8.887"
    "calculate_public_transit_carbon tmiles = tmiles * 0.17"
    "calculate_flight_carbon short long = short * 500 + long * 1600"
    "calculate_food_carbon meat dairy veg = meat * 3.0 + dairy * 0.7 + veg * 0.2"
    by (simp_all add: calculate_electricity_carbon_def calculate_natural_gas_carbon_def
        calculate_water_carbon_def calculate_car_carbon_def calculate_public_transit_carbon_def
        calculate_flight_carbon_def calculate_food_carbon_def)
  have zeros:
    "calculate_electricity_carbon 0 = 0" "calculate_natural_gas_carbon 0 = 0"
    "calculate_water_carbon 0 = 0" "calculate_car_carbon 0 25 = 0"
    "calculate_public_transit_carbon 0 = 0" "calculate_flight_carbon 0 0 = 0"
    "calculate_food_carbon 0 0 0 = 0"
    by (simp_all add: calculate_electricity_carbon_def calculate_natural_gas_carbon_def
        calculate_water_carbon_def calculate_car_carbon_def calculate_public_transit_carbon_def
        calculate_flight_carbon_def calculate_food_carbon_def)
  have e0: "calculate_total_carbon Map.empty = 0"
    by (simp add: calculate_total_carbon_sum get0_def zeros)
  have z0: "calculate_total_carbon (\<lambda>k. Some 0) = 0"
    by (simp add: calculate_total_carbon_sum get0_def zeros)
  have ex1: "calculate_total_carbon [''electricity_kwh'' \<mapsto> 100] = 40.0"
    by (simp add: calculate_total_carbon_sum get0_def zeros) (simp add: calculate_electricity_carbon_def)
  have ex2: "calculate_total_carbon [''car_miles'' \<mapsto> 250] = 88.87"
    by (simp add: calculate_total_carbon_sum get0_def zeros) (simp add: calculate_car_carbon_def)
  have ex3: "calculate_total_carbon [''flights_short_haul'' \<mapsto> 1, ''flights_long_haul'' \<mapsto> 1] = 2100"
    by (simp add: calculate_total_carbon_sum get0_def zeros) (simp add: calculate_flight_carbon_def)
  show ?thesis
    using calculate_total_carbon_sum [of data] cats zeros e0 z0 ex1 ex2 ex3 by blast
qed

section \<open>Streak tracker\<close>

lemma filter_uid_map:
  assumes "\<And>r. s_user_id (f r) = s_user_id r"
  shows "filter (\<lambda>r. s_user_id r = uid) (map (\<lambda>r. if s_user_id r = uid then f r else r) xs)
         = map f (filter (\<lambda>r. s_user_id r = uid) xs)"
  by (induction xs) (simp_all add: assms)

lemma filter_other_map:
  assumes "\<And>r. s_user_id (f r) = s_user_id r"
  shows "filter (\<lambda>r. s_user_id r \<noteq> uid) (map (\<lambda>r. if s_user_id r = uid then f r else r) xs)
         = filter (\<lambda>r. s_user_id r \<noteq> uid) xs"
  by (induction xs) (simp_all add: assms)

lemma store_streak_ok:
  "store_streak True uid dt c l n d =
     d\<lparr>user_streaks :=
         map (\<lambda>r. if s_user_id r = uid then set_streak c (max l c) dt (n + 1) r else r)
           (user_streaks d)\<rparr>"
  by (simp add: store_streak_def run_query_write_def set_streak_def Let_def)

lemma store_streak_fail: "store_streak False uid dt c l n d = d"
  by (simp add: store_streak_def run_query_write_def Let_def)

lemma set_streak_uid: "s_user_id (set_streak c l dt n r) = s_user_id r"
  by (simp add: set_streak_def)

lemma get_user_streak_filter:
  "get_user_streak True uid d = Some r \<longleftrightarrow>
     (\<exists>rest. filter (\<lambda>x. s_user_id x = uid) (user_streaks d) = r # rest)"
  by (auto simp: get_user_streak_def run_query_fetch_def split: list.splits)

lemma get_user_streak_store:
  assumes "get_user_streak True uid d = Some r"
  shows "get_user_streak True uid (store_streak True uid dt c l n d)
         = Some (set_streak c (max l c) dt (n + 1) r)"
proof -
  from assms obtain rest where f: "filter (\<lambda>x. s_user_id x = uid) (user_streaks d) = r # rest"
    by (auto simp: get_user_streak_filter)
  show ?thesis
    by (simp add: get_user_streak_filter store_streak_ok filter_uid_map set_streak_uid f)
qed

lemma store_streak_frame:
  "users (store_streak wr uid dt c l n d) = users d"
  "carbon_footprint (store_streak wr uid dt c l n d) = carbon_footprint d"
  "filter (\<lambda>x. s_user_id x \<noteq> uid) (user_streaks (store_streak wr uid dt c l n d))
     = filter (\<lambda>x. s_user_id x \<noteq> uid) (user_streaks d)"
  by (cases wr; simp add: store_streak_ok store_streak_fail filter_other_map set_streak_uid)+

lemma update_user_streak_existing:
  assumes "get_user_streak True uid d = Some r"
  shows "update_user_streak True wr uid dt d =
     (case last_entry_date r of
        Some l \<Rightarrow>
          if dt - l = 1
          then store_streak wr uid dt (current_streak r + 1) (longest_streak r) (total_entries r) d
          else if dt - l = 0 then d
          else store_streak wr uid dt 1 (longest_streak r) (total_entries r) d
      | None \<Rightarrow> store_streak wr uid dt 1 (longest_streak r) (total_entries r) d)"
proof -
  from assms obtain rest where f: "filter (\<lambda>x. s_user_id x = uid) (user_streaks d) = r # rest"
    by (auto simp: get_user_streak_filter)
  show ?thesis
    by (simp add: update_user_streak_def run_query_fetch_def f Let_def split: option.split)
qed

lemma update_user_streak_frame:
  "users (update_user_streak sel wr uid dt d) = users d"
  "carbon_footprint (update_user_streak sel wr uid dt d) = carbon_footprint d"
  "filter (\<lambda>x. s_user_id x \<noteq> uid) (user_streaks (update_user_streak sel wr uid dt d))
     = filter (\<lambda>x. s_user_id x \<noteq> uid) (user_streaks d)"
  by (simp_all add: update_user_streak_def run_query_fetch_def run_query_write_def Let_def
      store_streak_frame split: option.split list.split)

lemma streak_examples:
  "get_user_streak True 1 (fold (update_user_streak True True 1) [1, 2, 3] init_database)
     = Some \<lparr>s_user_id = 1, current_streak = 3, longest_streak = 3, last_entry_date = Some 3,
             total_entries = 3\<rparr>"
  "get_user_streak True 1 (fold (update_user_streak True True 1) [1, 2, 5] init_database)
     = Some \<lparr>s_user_id = 1, current_streak = 1, longest_streak = 2, last_entry_date = Some 5,
             total_entries = 3\<rparr>"
  "get_user_streak True 2 (fold (update_user_streak True True 2) [1, 2, 3] init_database)
     = Some \<lparr>s_user_id = 2, current_streak = 3, longest_streak = 3, last_entry_date = Some 3,
             total_entries = 3\<rparr>"
  "get_user_streak True 2 (fold (update_user_streak True True 2) [1, 2, 5] init_database)
     = Some \<lparr>s_user_id = 2, current_streak = 1, longest_streak = 2, last_entry_date = Some 5,
             total_entries = 3\<rparr>"
  by (simp_all add: init_database_def default_streak_def update_user_streak_def store_streak_def
      run_query_fetch_def run_query_write_def get_user_streak_def Let_def)

lemma update_user_streak_twice:
  "update_user_streak True True uid dt (update_user_streak True True uid dt d)
     = update_user_streak True True uid dt d"
proof (cases "filter (\<lambda>x. s_user_id x = uid) (user_streaks d)")
  case Nil
  let ?new = "\<lparr>s_user_id = uid, current_streak = 1, longest_streak = 1,
                last_entry_date = Some dt, total_entries = 1\<rparr>"
  have first: "update_user_streak True True uid dt d
                 = d\<lparr>user_streaks := user_streaks d @ [?new]\<rparr>"
    by (simp add: update_user_streak_def run_query_fetch_def run_query_write_def Nil)
  have "get_user_streak True uid (d\<lparr>user_streaks := user_streaks d @ [?new]\<rparr>) = Some ?new"
    by (simp add: get_user_streak_filter Nil)
  then show ?thesis
    by (simp add: first update_user_streak_existing)
next
  case (Cons r rest)
  then have g: "get_user_streak True uid d = Some r"
    by (simp add: get_user_streak_filter)
  have same: "update_user_streak True True uid dt e = e"
    if "get_user_streak True uid e = Some x" "last_entry_date x = Some dt" for e x
    using that by (simp add: update_user_streak_existing)
  have stored: "update_user_streak True True uid dt (store_streak True uid dt c l n d)
                  = store_streak True uid dt c l n d" for c l n
    by (rule same [OF get_user_streak_store [OF g]]) (simp add: set_streak_def)
  show ?thesis
  proof (cases "last_entry_date r")
    case None
    then show ?thesis by (simp add: update_user_streak_existing [OF g] stored)
  next
    case (Some l)
    then show ?thesis
      by (cases "dt - l = 1"; cases "dt - l = 0";
          simp add: update_user_streak_existing [OF g] stored)
  qed
qed

text \<open>
  Claim C1. For a user whose streak record exists with a non-null \<open>last_entry_date\<close>,
  \<open>update_user_streak\<close> with day difference \<open>dt - l\<close>: at difference 1 the current
  streak grows by 1; at difference 0 nothing at all is written; at every other difference,
  negative ones included, the current streak becomes 1. On the two writing paths the longest
  streak is the maximum of the old one and the new current streak, the entry count grows by 1
  and the last entry date becomes \<open>dt\<close>. No other table and no other user's row changes.
  Entries on days 1, 2, 3 give current 3, longest 3 and 3 entries; entries on days 1, 2, 5 give
  current 1 and longest 2; both from the record made at registration (user 1) and from no
  record (user 2).
\<close>

theorem update_user_streak_by_day_difference:
  "(get_user_streak True uid d = Some r \<and> last_entry_date r = Some l \<longrightarrow>
      (dt - l = 1 \<longrightarrow>
         get_user_streak True uid (update_user_streak True True uid dt d) =
           Some (set_streak (current_streak r + 1)
                   (max (longest_streak r) (current_streak r + 1)) dt (total_entries r + 1) r))
    \<and> (dt - l = 0 \<longrightarrow> update_user_streak True True uid dt d = d)
    \<and> (dt - l \<noteq> 1 \<and> dt - l \<noteq> 0 \<longrightarrow>
         get_user_streak True uid (update_user_streak True True uid dt d) =
           Some (set_streak 1 (max (longest_streak r) 1) dt (total_entries r + 1) r)))
   \<and> users (update_user_streak True True uid dt d) = users d
   \<and> carbon_footprint (update_user_streak True True uid dt d) = carbon_footprint d
   \<and> filter (\<lambda>x. s_user_id x \<noteq> uid) (user_streaks (update_user_streak True True uid dt d))
       = filter (\<lambda>x. s_user_id x \<noteq> uid) (user_streaks d)
   \<and> get_user_streak True 1 (fold (update_user_streak True True 1) [1, 2, 3] init_database)
       = Some \<lparr>s_user_id = 1, current_streak = 3, longest_streak = 3, last_entry_date = Some 3,
               total_entries = 3\<rparr>
   \<and> get_user_streak True 1 (fold (update_user_streak True True 1) [1, 2, 5] init_database)
       = Some \<lparr>s_user_id = 1, current_streak = 1, longest_streak = 2, last_entry_date = Some 5,
               total_entries = 3\<rparr>
   \<and> get_user_streak True 2 (fold (update_user_streak True True 2) [1, 2, 3] init_database)
       = Some \<lparr>s_user_id = 2, current_streak = 3, longest_streak = 3, last_entry_date = Some 3,
               total_entries = 3\<rparr>
   \<and> get_user_streak True 2 (fold (update_user_streak True True 2) [1, 2, 5] init_database)
       = Some \<lparr>s_user_id = 2, current_streak = 1, longest_streak = 2, last_entry_date = Some 5,
               total_entries = 3\<rparr>"
proof -
  have cases: "get_user_streak True uid d = Some r \<and> last_entry_date r = Some l \<longrightarrow>
      (dt - l = 1 \<longrightarrow>
         get_user_streak True uid (update_user_streak True True uid dt d) =
           Some (set_streak (current_streak r + 1)
                   (max (longest_streak r) (current_streak r + 1)) dt (total_entries r + 1) r))
    \<and> (dt - l = 0 \<longrightarrow> update_user_streak True True uid dt d = d)
    \<and> (dt - l \<noteq> 1 \<and> dt - l \<noteq> 0 \<longrightarrow>
         get_user_streak True uid (update_user_streak True True uid dt d) =
           Some (set_streak 1 (max (longest_streak r) 1) dt (total_entries r + 1) r))"
    by (simp add: update_user_streak_existing get_user_streak_store)
  have frame:
    "users (update_user_streak True True uid dt d) = users d"
    "carbon_footprint (update_user_streak True True uid dt d) = carbon_footprint d"
    "filter (\<lambda>x. s_user_id x \<noteq> uid) (user_streaks (update_user_streak True True uid dt d))
       = filter (\<lambda>x. s_user_id x \<noteq> uid) (user_streaks d)"
    by (simp_all add: update_user_streak_frame)
  show ?thesis
    using cases frame streak_examples by blast
qed

lemma witness_db_row: "get_user_streak True 1 witness_db = Some witness_row"
  by (simp add: witness_db_def witness_row_def get_user_streak_def run_query_fetch_def)

theorem update_user_streak_by_day_difference_witness:
  "get_user_streak True 1 witness_db = Some witness_row
   \<and> last_entry_date witness_row = Some 10
   \<and> get_user_streak True 1 (update_user_streak True True 1 11 witness_db)
       = Some \<lparr>s_user_id = 1, current_streak = 3, longest_streak = 5, last_entry_date = Some 11,
               total_entries = 8\<rparr>
   \<and> update_user_streak True True 1 10 witness_db = witness_db
   \<and> get_user_streak True 1 (update_user_streak True True 1 15 witness_db)
       = Some \<lparr>s_user_id = 1, current_streak = 1, longest_streak = 5, last_entry_date = Some 15,
               total_entries = 8\<rparr>
   \<and> get_user_streak True 1 (update_user_streak True True 1 4 witness_db)
       = Some \<lparr>s_user_id = 1, current_streak = 1, longest_streak = 5, last_entry_date = Some 4,
               total_entries = 8\<rparr>"
proof -
  have l: "last_entry_date witness_row = Some 10"
    by (simp add: witness_row_def)
  have v: "set_streak c m dt n witness_row =
             \<lparr>s_user_id = 1, current_streak = c, longest_streak = m, last_entry_date = Some dt,
              total_entries = n\<rparr>" for c m dt n
    by (simp add: set_streak_def witness_row_def)
  have c: "current_streak witness_row = 2" "longest_streak witness_row = 5"
    "total_entries witness_row = 7"
    by (simp_all add: witness_row_def)
  show ?thesis
    using update_user_streak_by_day_difference [of 1 witness_db witness_row 10 11]
      update_user_streak_by_day_difference [of 1 witness_db witness_row 10 10]
      update_user_streak_by_day_difference [of 1 witness_db witness_row 10 15]
      update_user_streak_by_day_difference [of 1 witness_db witness_row 10 4]
    by (simp add: witness_db_row l v c)
qed

text \<open>
  Claim C6. When the date equals the record's \<open>last_entry_date\<close>, \<open>update_user_streak\<close>
  changes nothing, once or twice in a row; and for every database and date a second call with
  the same date leaves the state of the first call.
\<close>

theorem update_user_streak_same_day_idempotent:
  "(get_user_streak True uid d = Some r \<and> last_entry_date r = Some dt \<longrightarrow>
      update_user_streak True True uid dt d = d
      \<and> update_user_streak True True uid dt (update_user_streak True True uid dt d) = d)
   \<and> update_user_streak True True uid dt (update_user_streak True True uid dt d)
       = update_user_streak True True uid dt d"
  by (simp add: update_user_streak_twice update_user_streak_existing)

theorem update_user_streak_same_day_idempotent_witness:
  "get_user_streak True 1 witness_db = Some witness_row
   \<and> last_entry_date witness_row = Some 10
   \<and> update_user_streak True True 1 10 witness_db = witness_db
   \<and> update_user_streak True True 1 10 (update_user_streak True True 1 10 witness_db) = witness_db"
  using update_user_streak_same_day_idempotent [of 1 witness_db witness_row 10]
  by (simp add: witness_db_row witness_row_def)

section \<open>The streak invariant\<close>

lemma streak_inv_init: "streak_inv init_database"
  by (simp add: streak_inv_def init_database_def default_streak_def)

lemma streak_inv_store:
  assumes "streak_inv d"
  shows "streak_inv (store_streak wr uid dt c l n d)"
proof (cases wr)
  case True
  with assms show ?thesis
    by (auto simp: streak_inv_def store_streak_ok set_streak_def list_all_iff)
next
  case False
  with assms show ?thesis by (simp add: store_streak_fail)
qed

lemma streak_inv_update:
  assumes "streak_inv d"
  shows "streak_inv (update_user_streak sel wr uid dt d)"
proof -
  have ins: "streak_inv (run_query_write wr
            (d\<lparr>user_streaks := user_streaks d @
                 [\<lparr>s_user_id = uid, current_streak = 1, longest_streak = 1,
                   last_entry_date = Some dt, total_entries = 1\<rparr>]\<rparr>) d)"
    using assms by (simp add: run_query_write_def streak_inv_def)
  show ?thesis
    unfolding update_user_streak_def Let_def
    using assms ins
    by (simp add: streak_inv_store split: option.split list.split)
qed

lemma streak_inv_register:
  assumes "streak_inv d"
  shows "streak_inv (snd (register_user ok1 ok2 ok3 ok4 uname mail d))"
  using assms
  by (simp add: register_user_def run_query_write_def run_query_fetch_def Let_def streak_inv_def
      default_streak_def split: option.split list.split)

lemma save_carbon_footprint_snd:
  "snd (save_carbon_footprint ins sel wr today uid data d) =
     update_user_streak sel wr uid (case date_entry data of None \<Rightarrow> today | Some x \<Rightarrow> x)
       (run_query_write ins
          (d\<lparr>carbon_footprint := carbon_footprint d @
               [entry_row uid (case date_entry data of None \<Rightarrow> today | Some x \<Rightarrow> x)
                  (quantity data) (calculate_total_carbon (quantity data))]\<rparr>) d)"
  by (simp add: save_carbon_footprint_def Let_def)

lemma streak_inv_save:
  assumes "streak_inv d"
  shows "streak_inv (snd (save_carbon_footprint ins sel wr today uid data d))"
proof -
  have "streak_inv (run_query_write ins (d\<lparr>carbon_footprint := rows\<rparr>) d)" for rows
    using assms by (simp add: run_query_write_def streak_inv_def)
  then show ?thesis
    unfolding save_carbon_footprint_snd by (rule streak_inv_update)
qed

lemma streak_inv_exec: "streak_inv d \<Longrightarrow> streak_inv (exec x d)"
  by (cases x) (simp_all add: streak_inv_update streak_inv_register streak_inv_save)

lemma streak_inv_fold: "streak_inv d \<Longrightarrow> streak_inv (fold exec ops d)"
  by (induction ops arbitrary: d) (simp_all add: streak_inv_exec)

text \<open>
  Claim C7. In every state a run of the application reaches, whatever the operations, their
  arguments and the outcomes of their database calls, every streak row has
  \<open>current_streak \<le> longest_streak\<close>. It holds in the initial database and for the row
  registration creates (0 and 0); \<open>update_user_streak\<close> (which creates the row 1 and 1 when
  the user has none), \<open>register_user\<close> and \<open>save_carbon_footprint\<close> each preserve it from
  any database.
\<close>

theorem longest_streak_at_least_current:
  "(\<forall>r \<in> set (user_streaks (run ops)). current_streak r \<le> longest_streak r)
   \<and> streak_inv init_database
   \<and> current_streak (default_streak uid) \<le> longest_streak (default_streak uid)
   \<and> (streak_inv d \<longrightarrow> streak_inv (update_user_streak sel_ok wr_ok uid entry_date d))
   \<and> (streak_inv d \<longrightarrow> streak_inv (snd (register_user ok1 ok2 ok3 ok4 uname mail d)))
   \<and> (streak_inv d \<longrightarrow>
        streak_inv (snd (save_carbon_footprint ins_ok sel_ok wr_ok today uid data d)))"
proof -
  have "streak_inv (run ops)"
    unfolding run_def by (rule streak_inv_fold [OF streak_inv_init])
  then have "\<forall>r \<in> set (user_streaks (run ops)). current_streak r \<le> longest_streak r"
    by (simp add: streak_inv_def list_all_iff)
  moreover have "current_streak (default_streak uid) \<le> longest_streak (default_streak uid)"
    by (simp add: default_streak_def)
  ultimately show ?thesis
    using streak_inv_init streak_inv_update streak_inv_register streak_inv_save by blast
qed

lemma witness_ops_streaks:
  "user_streaks (run witness_ops) =
     [default_streak 1,
      \<lparr>s_user_id = 2, current_streak = 1, longest_streak = 2, last_entry_date = Some 20,
        total_entries = 3\<rparr>,
      \<lparr>s_user_id = 3, current_streak = 1, longest_streak = 1, last_entry_date = Some 20,
        total_entries = 1\<rparr>]"
  by (simp add: run_def witness_ops_def init_database_def register_user_def
      save_carbon_footprint_def update_user_streak_def store_streak_def run_query_fetch_def
      run_query_write_def next_user_id_def default_streak_def Let_def)

theorem longest_streak_at_least_current_witness:
  "user_streaks (run witness_ops) =
     [default_streak 1,
      \<lparr>s_user_id = 2, current_streak = 1, longest_streak = 2, last_entry_date = Some 20,
        total_entries = 3\<rparr>,
      \<lparr>s_user_id = 3, current_streak = 1, longest_streak = 1, last_entry_date = Some 20,
        total_entries = 1\<rparr>]
   \<and> list_all (\<lambda>r. current_streak r \<le> longest_streak r) (user_streaks (run witness_ops))
   \<and> streak_inv witness_db
   \<and> streak_inv (update_user_streak True True 1 11 witness_db)"
proof -
  have w: "streak_inv witness_db"
    by (simp add: streak_inv_def witness_db_def)
  show ?thesis
    using longest_streak_at_least_current [of witness_ops 1 witness_db True True 11]
    by (simp add: witness_ops_streaks w list_all_iff)
qed

section \<open>Registration, first entry, and a failing streak update\<close>

lemma no_match_filter: "list_all (\<lambda>u. \<not> P u) xs \<Longrightarrow> filter P xs = []"
  by (induction xs) simp_all

lemma register_user_fresh:
  assumes "list_all (\<lambda>u. username u \<noteq> uname \<and> email u \<noteq> mail) (users d)"
  shows "register_user True True True True uname mail d =
     (True, d\<lparr>users := users d @
                 [\<lparr>u_id = next_user_id (users d), username = uname, email = mail\<rparr>],
               user_streaks := user_streaks d @ [default_streak (next_user_id (users d))]\<rparr>)"
proof -
  from assms have a: "list_all (\<lambda>u. \<not> (username u = uname \<or> email u = mail)) (users d)"
    by simp
  from assms have b: "list_all (\<lambda>u. \<not> (username u = uname)) (users d)"
    by (simp add: list_all_iff)
  have f1: "filter (\<lambda>u. username u = uname \<or> email u = mail) (users d) = []"
    by (rule no_match_filter [OF a])
  have f2: "filter (\<lambda>u. username u = uname) (users d) = []"
    by (rule no_match_filter [OF b])
  show ?thesis
    by (simp add: register_user_def run_query_fetch_def run_query_write_def Let_def f1 f2 assms)
qed

lemma update_user_streak_write_fails: "update_user_streak sel False uid dt d = d"
  by (simp add: update_user_streak_def store_streak_fail run_query_write_def Let_def
      split: option.split list.split)

text \<open>
  Claim C10. When every database call executes and no user has the name or the email,
  \<open>register_user\<close> adds the user and a streak row with \<open>current_streak = 0\<close>,
  \<open>longest_streak = 0\<close>, \<open>total_entries = 0\<close> and a NULL \<open>last_entry_date\<close>. For a user
  whose streak row has a NULL \<open>last_entry_date\<close>, the next \<open>update_user_streak\<close> sets the
  current streak to 1, the longest streak to the maximum of the old one and 1, the entry
  count to the old one plus 1 and the last entry date to the date.
\<close>

theorem register_then_first_entry:
  "(list_all (\<lambda>u. username u \<noteq> uname \<and> email u \<noteq> mail) (users d) \<longrightarrow>
      register_user True True True True uname mail d =
        (True, d\<lparr>users := users d @
                    [\<lparr>u_id = next_user_id (users d), username = uname, email = mail\<rparr>],
                  user_streaks := user_streaks d @ [default_streak (next_user_id (users d))]\<rparr>))
   \<and> default_streak uid =
        \<lparr>s_user_id = uid, current_streak = 0, longest_streak = 0, last_entry_date = None,
         total_entries = 0\<rparr>
   \<and> (get_user_streak True uid d = Some r \<and> last_entry_date r = None \<longrightarrow>
        get_user_streak True uid (update_user_streak True True uid entry_date d) =
          Some (set_streak 1 (max (longest_streak r) 1) entry_date (total_entries r + 1) r))"
  by (simp add: register_user_fresh default_streak_def update_user_streak_existing
      get_user_streak_store)

lemma witness_register:
  "register_user True True True True ''ann'' ''ann@example.org'' init_database =
     (True,
      \<lparr>users = [\<lparr>u_id = 1, username = ''admin'', email = ''admin@carbontracker.com''\<rparr>,
                \<lparr>u_id = 2, username = ''ann'', email = ''ann@example.org''\<rparr>],
       carbon_footprint = [],
       user_streaks = [default_streak 1, default_streak 2]\<rparr>)"
  by (simp add: register_user_def init_database_def run_query_fetch_def run_query_write_def
      next_user_id_def Let_def)

theorem register_then_first_entry_witness:
  "list_all (\<lambda>u. username u \<noteq> ''ann'' \<and> email u \<noteq> ''ann@example.org'') (users init_database)
   \<and> register_user True True True True ''ann'' ''ann@example.org'' init_database =
     (True,
      \<lparr>users = [\<lparr>u_id = 1, username = ''admin'', email = ''admin@carbontracker.com''\<rparr>,
                \<lparr>u_id = 2, username = ''ann'', email = ''ann@example.org''\<rparr>],
       carbon_footprint = [],
       user_streaks = [default_streak 1, default_streak 2]\<rparr>)
   \<and> get_user_streak True 2 witness_db =
       Some \<lparr>s_user_id = 2, current_streak = 4, longest_streak = 4, last_entry_date = None,
              total_entries = 4\<rparr>
   \<and> get_user_streak True 2 (update_user_streak True True 2 30 witness_db) =
       Some \<lparr>s_user_id = 2, current_streak = 1, longest_streak = 4, last_entry_date = Some 30,
              total_entries = 5\<rparr>"
proof -
  let ?r = "\<lparr>s_user_id = 2, current_streak = 4, longest_streak = 4, last_entry_date = None,
             total_entries = 4\<rparr>"
  have f: "list_all (\<lambda>u. username u \<noteq> ''ann'' \<and> email u \<noteq> ''ann@example.org'')
             (users init_database)"
    by (simp add: init_database_def)
  have g: "get_user_streak True 2 witness_db = Some ?r"
    by (simp add: witness_db_def get_user_streak_def run_query_fetch_def)
  show ?thesis
    using register_then_first_entry [of "''ann''" "''ann@example.org''" init_database]
      register_then_first_entry [of _ _ witness_db 2 ?r 30]
    by (simp add: f g witness_register set_streak_def)
qed

text \<open>
  Claim C9. \<open>save_carbon_footprint\<close> writes the entry row before it calls
  \<open>update_user_streak\<close>. When the insert executes and the streak write fails, the call
  ends with the new row in \<open>carbon_footprint\<close> (nothing is rolled back) and the streak
  table as it was; with a streak write that executes, the same call changes the streak table.
\<close>

theorem failed_streak_update_keeps_entry:
  "save_carbon_footprint True sel_ok False today uid data d =
     (True, d\<lparr>carbon_footprint := carbon_footprint d @
                 [entry_row uid (entry_date_of today data) (quantity data)
                    (calculate_total_carbon (quantity data))]\<rparr>)
   \<and> user_streaks (snd (save_carbon_footprint True sel_ok False today uid data d)) = user_streaks d
   \<and> entry_row uid (entry_date_of today data) (quantity data)
        (calculate_total_carbon (quantity data))
       \<in> set (carbon_footprint (snd (save_carbon_footprint True sel_ok False today uid data d)))
   \<and> user_streaks (snd (save_carbon_footprint True True True 100 2 witness_data witness_db))
       \<noteq> user_streaks witness_db"
proof -
  have s: "save_carbon_footprint True sel_ok False today uid data d =
     (True, d\<lparr>carbon_footprint := carbon_footprint d @
                 [entry_row uid (entry_date_of today data) (quantity data)
                    (calculate_total_carbon (quantity data))]\<rparr>)"
    by (simp add: save_carbon_footprint_def Let_def update_user_streak_write_fails
        run_query_write_def entry_date_of_def)
  have w: "user_streaks (snd (save_carbon_footprint True True True 100 2 witness_data witness_db))
             \<noteq> user_streaks witness_db"
    by (simp add: save_carbon_footprint_snd witness_data_def witness_db_def run_query_write_def
        update_user_streak_def store_streak_def run_query_fetch_def Let_def)
  show ?thesis
    by (simp add: s w)
qed

theorem failed_streak_update_keeps_entry_witness:
  "map total_carbon
     (carbon_footprint (snd (save_carbon_footprint True True False 100 2 witness_data witness_db)))
     = [88.87]
   \<and> map cf_date
     (carbon_footprint (snd (save_carbon_footprint True True False 100 2 witness_data witness_db)))
     = [10]
   \<and> user_streaks (snd (save_carbon_footprint True True False 100 2 witness_data witness_db))
       = user_streaks witness_db"
proof -
  have t: "calculate_total_carbon (quantity witness_data) = 88.87"
    by (simp add: witness_data_def calculate_total_carbon_sum get0_def
        calculate_electricity_carbon_def calculate_natural_gas_carbon_def
        calculate_water_carbon_def calculate_car_carbon_def calculate_public_transit_carbon_def
        calculate_flight_carbon_def calculate_food_carbon_def)
  have e: "carbon_footprint witness_db = []"
    by (simp add: witness_db_def)
  have dt: "entry_date_of 100 witness_data = 10"
    by (simp add: entry_date_of_def witness_data_def)
  show ?thesis
    using failed_streak_update_keeps_entry [of True 100 2 witness_data witness_db]
    by (simp add: t e dt entry_row_def)
qed

section \<open>Saving, listing and the stored total\<close>

lemma get0_raw_fields:
  "get0 (raw_fields (entry_row uid dt q tc)) ''electricity_kwh'' = get0 q ''electricity_kwh''"
  "get0 (raw_fields (entry_row uid dt q tc)) ''natural_gas_therms'' = get0 q ''natural_gas_therms''"
  "get0 (raw_fields (entry_row uid dt q tc)) ''water_gallons'' = get0 q ''water_gallons''"
  "get0 (raw_fields (entry_row uid dt q tc)) ''car_miles'' = get0 q ''car_miles''"
  "get0 (raw_fields (entry_row uid dt q tc)) ''public_transit_miles'' = get0 q ''public_transit_miles''"
  "get0 (raw_fields (entry_row uid dt q tc)) ''flights_short_haul'' = get0 q ''flights_short_haul''"
  "get0 (raw_fields (entry_row uid dt q tc)) ''flights_long_haul'' = get0 q ''flights_long_haul''"
  "get0 (raw_fields (entry_row uid dt q tc)) ''meat_servings'' = get0 q ''meat_servings''"
  "get0 (raw_fields (entry_row uid dt q tc)) ''dairy_servings'' = get0 q ''dairy_servings''"
  "get0 (raw_fields (entry_row uid dt q tc)) ''veg_servings'' = get0 q ''veg_servings''"
  by (simp_all add: raw_fields_def entry_row_def get0_def)

lemma calculate_total_carbon_raw_fields:
  "calculate_total_carbon (raw_fields (entry_row uid dt q tc)) = calculate_total_carbon q"
  by (simp only: calculate_total_carbon_sum get0_raw_fields)

lemma save_carbon_footprint_rows:
  "carbon_footprint (snd (save_carbon_footprint True sel wr today uid data d)) =
     carbon_footprint d @
       [entry_row uid (entry_date_of today data) (quantity data)
          (calculate_total_carbon (quantity data))]"
  by (simp add: save_carbon_footprint_snd update_user_streak_frame run_query_write_def
      entry_date_of_def)

lemma save_carbon_footprint_rows_any:
  "\<exists>new. carbon_footprint (snd (save_carbon_footprint ins sel wr today uid data d)) =
     carbon_footprint d @ new"
  by (cases ins) (simp_all add: save_carbon_footprint_snd update_user_streak_frame
      run_query_write_def)

lemma register_user_rows:
  "carbon_footprint (snd (register_user ok1 ok2 ok3 ok4 uname mail d)) = carbon_footprint d"
  by (simp add: register_user_def run_query_fetch_def run_query_write_def Let_def
      split: option.split list.split)

lemma exec_rows: "\<exists>new. carbon_footprint (exec x d) = carbon_footprint d @ new"
proof (cases x)
  case (Register ok1 ok2 ok3 ok4 uname mail)
  then show ?thesis by (simp add: register_user_rows)
next
  case (Save ins sel wr today uid data)
  then show ?thesis by (simp add: save_carbon_footprint_rows_any)
next
  case (RecordEntry sel wr uid dt)
  then show ?thesis by (simp add: update_user_streak_frame)
qed

lemma history_set:
  "set (get_user_footprint_history True uid d) = {r \<in> set (carbon_footprint d). cf_user_id r = uid}"
  by (auto simp: get_user_footprint_history_def run_query_fetch_def)

lemma entry_row_user: "cf_user_id (entry_row uid dt q tc) = uid"
  by (simp add: entry_row_def)

text \<open>
  Claim C8. When the insert of \<open>save_carbon_footprint\<close> executes, the history of the user
  read right after it contains the saved row; its stored total is the calculator's total of
  the data, which is also the calculator's total of the row's own quantity columns (absent
  keys stored as 0); the table is the old table with that row appended; and every operation
  of a run leaves the rows already in \<open>carbon_footprint\<close> as they are, only appending.
\<close>

theorem saved_entry_listed_with_calculator_total:
  "entry_row uid (entry_date_of today data) (quantity data) (calculate_total_carbon (quantity data))
     \<in> set (get_user_footprint_history True uid
              (snd (save_carbon_footprint True sel_ok wr_ok today uid data d)))
   \<and> total_carbon (entry_row uid (entry_date_of today data) (quantity data)
        (calculate_total_carbon (quantity data))) = calculate_total_carbon (quantity data)
   \<and> calculate_total_carbon (raw_fields (entry_row uid (entry_date_of today data) (quantity data)
        (calculate_total_carbon (quantity data)))) = calculate_total_carbon (quantity data)
   \<and> carbon_footprint (snd (save_carbon_footprint True sel_ok wr_ok today uid data d)) =
       carbon_footprint d @
         [entry_row uid (entry_date_of today data) (quantity data)
            (calculate_total_carbon (quantity data))]
   \<and> (\<exists>new. carbon_footprint (exec x d) = carbon_footprint d @ new)"
proof -
  have t: "total_carbon (entry_row uid dt q tc) = tc" for dt q tc
    by (simp add: entry_row_def)
  show ?thesis
    using exec_rows [of x d]
    by (simp add: history_set save_carbon_footprint_rows entry_row_user t
        calculate_total_carbon_raw_fields)
qed

lemma witness_total: "calculate_total_carbon (quantity witness_data) = 88.87"
  by (simp add: witness_data_def calculate_total_carbon_sum get0_def
      calculate_electricity_carbon_def calculate_natural_gas_carbon_def
      calculate_water_carbon_def calculate_car_carbon_def calculate_public_transit_carbon_def
      calculate_flight_carbon_def calculate_food_carbon_def)

theorem saved_entry_listed_with_calculator_total_witness:
  "map total_carbon (get_user_footprint_history True 2
     (snd (save_carbon_footprint True True True 100 2 witness_data witness_db))) = [88.87]
   \<and> map car_miles (get_user_footprint_history True 2
     (snd (save_carbon_footprint True True True 100 2 witness_data witness_db))) = [250]
   \<and> calculate_total_carbon (quantity witness_data) = 88.87"
proof -
  have e: "carbon_footprint witness_db = []"
    by (simp add: witness_db_def)
  have h: "get_user_footprint_history True 2 db =
             rev (sort_key cf_date (filter (\<lambda>r. cf_user_id r = 2) (carbon_footprint db)))" for db
    by (simp add: get_user_footprint_history_def run_query_fetch_def)
  have c: "car_miles (entry_row 2 dt (quantity witness_data) tc) = 250" for dt tc
    by (simp add: entry_row_def witness_data_def get0_def)
  have t: "total_carbon (entry_row uid dt q tc) = tc" for uid dt q tc
    by (simp add: entry_row_def)
  show ?thesis
    using saved_entry_listed_with_calculator_total [of 2 100 witness_data True True witness_db]
    by (simp add: h e witness_total entry_row_user c t)
qed

section \<open>Negative quantities\<close>

text \<open>
  Claim C4, as stated, fails: a negative quantity is not rejected. For minus 100 kWh the
  calculator returns minus 40, and \<open>save_carbon_footprint\<close> returns \<open>True\<close> and stores
  the row with that quantity and that total.
\<close>

theorem negative_quantity_counterexample:
  "calculate_total_carbon (quantity negative_data) = - 40
   \<and> fst (save_carbon_footprint True True True 100 2 negative_data witness_db) = True
   \<and> map total_carbon
       (carbon_footprint (snd (save_carbon_footprint True True True 100 2 negative_data witness_db)))
       = [- 40]
   \<and> map electricity_kwh
       (carbon_footprint (snd (save_carbon_footprint True True True 100 2 negative_data witness_db)))
       = [- 100]"
proof -
  have t: "calculate_total_carbon (quantity negative_data) = - 40"
    by (simp add: negative_data_def calculate_total_carbon_sum get0_def
        calculate_electricity_carbon_def calculate_natural_gas_carbon_def
        calculate_water_carbon_def calculate_car_carbon_def calculate_public_transit_carbon_def
        calculate_flight_carbon_def calculate_food_carbon_def)
  have e: "carbon_footprint witness_db = []"
    by (simp add: witness_db_def)
  have k: "electricity_kwh (entry_row uid dt (quantity negative_data) tc) = - 100" for uid dt tc
    by (simp add: entry_row_def negative_data_def get0_def)
  have f: "fst (save_carbon_footprint True True True 100 2 negative_data witness_db) = True"
    by (simp add: save_carbon_footprint_def Let_def)
  have tc: "total_carbon (entry_row uid dt q c) = c" for uid dt q c
    by (simp add: entry_row_def)
  show ?thesis
    by (simp add: t e k f save_carbon_footprint_rows tc)
qed

text \<open>
  Claim C4, amended. Neither \<open>calculate_total_carbon\<close> nor \<open>save_carbon_footprint\<close>
  checks its input. For every input, of whatever signs, the total is the sum of each of the
  ten quantities times its factor (so a negative quantity is added as it is, never clamped);
  the total is non-negative whenever every quantity is non-negative; and
  \<open>save_carbon_footprint\<close> returns \<open>True\<close> and stores the row with the computed total
  for every input.
\<close>

theorem total_carbon_not_validated:
  "((\<forall>k. 0 \<le> get0 data k) \<longrightarrow> 0 \<le> calculate_total_carbon data)
   \<and> calculate_total_carbon data =
         get0 data ''electricity_kwh'' * 0.4
       + get0 data ''natural_gas_therms'' * 5.3
       + get0 data ''water_gallons'' * 0.0002
       + (get0 data ''car_miles'' / 25) * 8.887
       + get0 data ''public_transit_miles'' * 0.17
       + (get0 data ''flights_short_haul'' * 500 + get0 data ''flights_long_haul'' * 1600)
       + (get0 data ''meat_servings'' * 3.0 + get0 data ''dairy_servings'' * 0.7
          + get0 data ''veg_servings'' * 0.2)
   \<and> calculate_total_carbon [''electricity_kwh'' \<mapsto> x] = x * 0.4
   \<and> fst (save_carbon_footprint ins_ok sel_ok wr_ok today uid fdata d) = True
   \<and> carbon_footprint (snd (save_carbon_footprint True sel_ok wr_ok today uid fdata d)) =
       carbon_footprint d @
         [entry_row uid (entry_date_of today fdata) (quantity fdata)
            (calculate_total_carbon (quantity fdata))]"
proof -
  have formula: "calculate_total_carbon data =
         get0 data ''electricity_kwh'' * 0.4
       + get0 data ''natural_gas_therms'' * 5.3
       + get0 data ''water_gallons'' * 0.0002
       + (get0 data ''car_miles'' / 25) * 8.887
       + get0 data ''public_transit_miles'' * 0.17
       + (get0 data ''flights_short_haul'' * 500 + get0 data ''flights_long_haul'' * 1600)
       + (get0 data ''meat_servings'' * 3.0 + get0 data ''dairy_servings'' * 0.7
          + get0 data ''veg_servings'' * 0.2)"
    unfolding calculate_total_carbon_sum calculate_electricity_carbon_def
      calculate_natural_gas_carbon_def calculate_water_carbon_def calculate_car_carbon_def
      calculate_public_transit_carbon_def calculate_flight_carbon_def
      calculate_food_carbon_def Let_def
    by (rule refl)
  have nonneg: "0 \<le> calculate_total_carbon data" if "\<forall>k. 0 \<le> get0 data k"
  proof -
    have "0 \<le> get0 data ''electricity_kwh''" "0 \<le> get0 data ''natural_gas_therms''"
      "0 \<le> get0 data ''water_gallons''" "0 \<le> get0 data ''car_miles''"
      "0 \<le> get0 data ''public_transit_miles''" "0 \<le> get0 data ''flights_short_haul''"
      "0 \<le> get0 data ''flights_long_haul''" "0 \<le> get0 data ''meat_servings''"
      "0 \<le> get0 data ''dairy_servings''" "0 \<le> get0 data ''veg_servings''"
      using that by blast+
    then show ?thesis
      unfolding formula by simp
  qed
  have one: "calculate_total_carbon [''electricity_kwh'' \<mapsto> x] = x * 0.4"
    by (simp add: calculate_total_carbon_sum get0_def
        calculate_electricity_carbon_def calculate_natural_gas_carbon_def
        calculate_water_carbon_def calculate_car_carbon_def calculate_public_transit_carbon_def
        calculate_flight_carbon_def calculate_food_carbon_def)
  have f: "fst (save_carbon_footprint ins_ok sel_ok wr_ok today uid fdata d) = True"
    by (simp add: save_carbon_footprint_def Let_def)
  show ?thesis
    using nonneg formula one f save_carbon_footprint_rows [of sel_ok wr_ok today uid fdata d]
    by blast
qed

theorem total_carbon_not_validated_witness:
  "(\<forall>k. 0 \<le> get0 (quantity witness_data) k) \<and> 0 \<le> calculate_total_carbon (quantity witness_data)
   \<and> calculate_total_carbon (quantity witness_data) = 88.87
   \<and> calculate_total_carbon [''car_miles'' \<mapsto> - 250] = - 88.87
   \<and> calculate_total_carbon [''electricity_kwh'' \<mapsto> 100, ''flights_long_haul'' \<mapsto> - 1] = - 1560"
proof -
  have g: "\<forall>k. 0 \<le> get0 (quantity witness_data) k"
    by (simp add: witness_data_def get0_def)
  have p: "0 \<le> calculate_total_carbon (quantity witness_data)
           \<and> calculate_total_carbon (quantity witness_data) = 88.87"
    using total_carbon_not_validated [of "quantity witness_data"] g
    by (simp add: witness_total)
  have c: "calculate_total_carbon [''car_miles'' \<mapsto> - 250] = - 88.87"
    using total_carbon_not_validated [of "[''car_miles'' \<mapsto> - 250]"]
    by (simp add: get0_def)
  have m: "calculate_total_carbon [''electricity_kwh'' \<mapsto> 100, ''flights_long_haul'' \<mapsto> - 1]
             = - 1560"
    using total_carbon_not_validated
            [of "[''electricity_kwh'' \<mapsto> 100, ''flights_long_haul'' \<mapsto> - 1]"]
    by (simp add: get0_def)
  show ?thesis
    using g p c m by blast
qed

section \<open>Dashboard statistics: the period comparison\<close>

lemma sum_list_sort_key: "sum_list (map f (sort_key k xs)) = sum_list (map (f :: 'a \<Rightarrow> real) xs)"
proof -
  have "sum_mset (mset (map f (sort_key k xs))) = sum_mset (mset (map f xs))"
    by simp
  then show ?thesis
    by (simp only: sum_mset_sum_list)
qed

lemma mean_rev_sort_key: "mean (map f (rev (sort_key k xs))) = mean (map f xs)"
  by (simp add: mean_def rev_map [symmetric] sum_list_sort_key)

lemma sort_key_Nil_iff: "sort_key k xs = [] \<longleftrightarrow> xs = []"
  by (metis length_0_conv length_sort)

lemma window_mean_rev_sort_key: "window_mean w (rev (sort_key k xs)) = window_mean w xs"
proof -
  have f: "filter P (rev (sort_key k xs)) = rev (sort_key k (filter P xs))" for P
    by (simp add: rev_filter [symmetric] filter_sort)
  show ?thesis
    by (simp add: window_mean_def Let_def f mean_rev_sort_key sort_key_Nil_iff)
qed

lemma history_user_rows:
  "get_user_footprint_history True uid d = rev (sort_key cf_date (user_rows uid d))"
  "get_user_footprint_history False uid d = []"
  by (simp_all add: get_user_footprint_history_def run_query_fetch_def user_rows_def)

lemma dashboard_None: "get_dashboard_stats False today uid d = None"
  by (simp add: get_dashboard_stats_def history_user_rows)

lemma dashboard_fields:
  assumes "get_dashboard_stats ok today uid d = Some s"
  shows "recent_avg s =
           window_mean (\<lambda>dt. today - 30 \<le> dt) (get_user_footprint_history ok uid d)"
    and "previous_avg s =
           window_mean (\<lambda>dt. today - 60 \<le> dt \<and> dt < today - 30)
             (get_user_footprint_history ok uid d)"
    and "trend s = (if recent_avg s < previous_avg s then ''improving''
                    else if recent_avg s > previous_avg s then ''worsening'' else ''stable'')"
proof -
  let ?h = "get_user_footprint_history ok uid d"
  from assms have ne: "?h \<noteq> []"
    by (auto simp: get_dashboard_stats_def Let_def split: if_splits)
  from assms ne have r: "recent_avg s =
      (if filter (\<lambda>r. cf_date r \<ge> today - 30) ?h \<noteq> []
       then mean (map total_carbon (filter (\<lambda>r. cf_date r \<ge> today - 30) ?h)) else 0)"
    by (auto simp: get_dashboard_stats_def Let_def)
  from assms ne have p: "previous_avg s =
      (if filter (\<lambda>r. cf_date r \<ge> today - 60 \<and> cf_date r < today - 30) ?h \<noteq> []
       then mean (map total_carbon
              (filter (\<lambda>r. cf_date r \<ge> today - 60 \<and> cf_date r < today - 30) ?h)) else 0)"
    by (auto simp: get_dashboard_stats_def Let_def)
  from assms ne have t: "trend s =
      (if (if filter (\<lambda>r. cf_date r \<ge> today - 30) ?h \<noteq> []
           then mean (map total_carbon (filter (\<lambda>r. cf_date r \<ge> today - 30) ?h)) else 0)
          < (if filter (\<lambda>r. cf_date r \<ge> today - 60 \<and> cf_date r < today - 30) ?h \<noteq> []
             then mean (map total_carbon
                    (filter (\<lambda>r. cf_date r \<ge> today - 60 \<and> cf_date r < today - 30) ?h)) else 0)
       then ''improving''
       else if (if filter (\<lambda>r. cf_date r \<ge> today - 30) ?h \<noteq> []
                then mean (map total_carbon (filter (\<lambda>r. cf_date r \<ge> today - 30) ?h)) else 0)
               > (if filter (\<lambda>r. cf_date r \<ge> today - 60 \<and> cf_date r < today - 30) ?h \<noteq> []
                  then mean (map total_carbon
                         (filter (\<lambda>r. cf_date r \<ge> today - 60 \<and> cf_date r < today - 30) ?h))
                  else 0)
            then ''worsening'' else ''stable'')"
    by (auto simp: get_dashboard_stats_def Let_def)
  show "recent_avg s = window_mean (\<lambda>dt. today - 30 \<le> dt) ?h"
    by (simp add: r window_mean_def Let_def)
  show "previous_avg s = window_mean (\<lambda>dt. today - 60 \<le> dt \<and> dt < today - 30) ?h"
    by (simp add: p window_mean_def Let_def)
  show "trend s = (if recent_avg s < previous_avg s then ''improving''
                    else if recent_avg s > previous_avg s then ''worsening'' else ''stable'')"
    unfolding t r p ..
qed

lemma dashboard_ok:
  assumes "get_dashboard_stats ok today uid d = Some s"
  shows "ok"
  using assms dashboard_None by (cases ok) simp_all

lemma dashboard_windows:
  assumes "get_dashboard_stats ok today uid d = Some s"
  shows "recent_avg s = window_mean (\<lambda>dt. today - 30 \<le> dt) (user_rows uid d)"
    and "previous_avg s =
           window_mean (\<lambda>dt. today - 60 \<le> dt \<and> dt < today - 30) (user_rows uid d)"
  using dashboard_fields(1,2) [OF assms] dashboard_ok [OF assms]
  by (simp_all add: history_user_rows window_mean_rev_sort_key)

lemma dashboard_Some:
  assumes "user_rows uid d \<noteq> []"
  shows "\<exists>s. get_dashboard_stats True today uid d = Some s"
  using assms by (simp add: get_dashboard_stats_def Let_def history_user_rows sort_key_Nil_iff)

lemma dashboard_eval:
  assumes "user_rows uid d \<noteq> []"
  shows "map_option recent_avg (get_dashboard_stats True today uid d) =
           Some (window_mean (\<lambda>dt. today - 30 \<le> dt) (user_rows uid d))"
    and "map_option previous_avg (get_dashboard_stats True today uid d) =
           Some (window_mean (\<lambda>dt. today - 60 \<le> dt \<and> dt < today - 30) (user_rows uid d))"
proof -
  from dashboard_Some [OF assms] obtain s where s: "get_dashboard_stats True today uid d = Some s"
    by blast
  show "map_option recent_avg (get_dashboard_stats True today uid d) =
           Some (window_mean (\<lambda>dt. today - 30 \<le> dt) (user_rows uid d))"
    by (simp add: s dashboard_windows(1) [OF s])
  show "map_option previous_avg (get_dashboard_stats True today uid d) =
           Some (window_mean (\<lambda>dt. today - 60 \<le> dt \<and> dt < today - 30) (user_rows uid d))"
    by (simp add: s dashboard_windows(2) [OF s])
qed

lemma entry_row_fields:
  "cf_user_id (entry_row uid dt q tc) = uid"
  "cf_date (entry_row uid dt q tc) = dt"
  "total_carbon (entry_row uid dt q tc) = tc"
  by (simp_all add: entry_row_def)

lemma boundary_rows:
  "user_rows 1 boundary_db = [entry_row 1 70 [''electricity_kwh'' \<mapsto> 25] 10]"
  by (simp add: user_rows_def boundary_db_def entry_row_fields)

lemma future_rows:
  "user_rows 1 future_db = [entry_row 1 101 [''electricity_kwh'' \<mapsto> 50] 20]"
  by (simp add: user_rows_def future_db_def entry_row_fields)

lemma history_rows:
  "user_rows 1 history_db =
     [entry_row 1 20 [''electricity_kwh'' \<mapsto> 200] 80,
      entry_row 1 50 [''electricity_kwh'' \<mapsto> 75] 30,
      entry_row 1 95 [''electricity_kwh'' \<mapsto> 25] 10,
      entry_row 1 100 [''electricity_kwh'' \<mapsto> 50] 20]"
  by (simp add: user_rows_def history_db_def entry_row_fields)

text \<open>
  Claim C3, as stated, fails. With day 100 as today, an entry dated day 70 (30 days back)
  is in the code's recent mean, while the stated windows put it in the previous one; and an
  entry dated day 101 is in the code's recent mean, while the stated recent window ends at
  day 100.
\<close>

theorem period_windows_counterexample:
  "map_option recent_avg (get_dashboard_stats True 100 1 boundary_db) = Some 10
   \<and> window_mean (spec_recent_window 100) (user_rows 1 boundary_db) = 0
   \<and> map_option previous_avg (get_dashboard_stats True 100 1 boundary_db) = Some 0
   \<and> window_mean (spec_previous_window 100) (user_rows 1 boundary_db) = 10
   \<and> map_option recent_avg (get_dashboard_stats True 100 1 future_db) = Some 20
   \<and> window_mean (spec_recent_window 100) (user_rows 1 future_db) = 0"
proof -
  have b: "user_rows 1 boundary_db \<noteq> []" and f: "user_rows 1 future_db \<noteq> []"
    by (simp_all add: boundary_rows future_rows)
  have code:
    "window_mean (\<lambda>dt. 100 - 30 \<le> dt) (user_rows 1 boundary_db) = 10"
    "window_mean (\<lambda>dt. 100 - 60 \<le> dt \<and> dt < 100 - 30) (user_rows 1 boundary_db) = 0"
    "window_mean (\<lambda>dt. 100 - 30 \<le> dt) (user_rows 1 future_db) = 20"
    by (simp_all add: boundary_rows future_rows window_mean_def mean_def entry_row_fields)
  have spec:
    "window_mean (spec_recent_window 100) (user_rows 1 boundary_db) = 0"
    "window_mean (spec_previous_window 100) (user_rows 1 boundary_db) = 10"
    "window_mean (spec_recent_window 100) (user_rows 1 future_db) = 0"
    by (simp_all add: boundary_rows future_rows window_mean_def mean_def entry_row_fields
        spec_recent_window_def spec_previous_window_def)
  show ?thesis
    by (simp only: dashboard_eval [OF b] dashboard_eval [OF f] code spec simp_thms)
qed

text \<open>
  Claim C3, amended. When \<open>get_dashboard_stats\<close> returns statistics, the recent mean is
  the mean of the stored totals of exactly the user's entries dated \<open>today - 30\<close> or
  later (no upper bound), and the previous mean that of exactly the entries dated from
  \<open>today - 60\<close> to \<open>today - 31\<close>; the order of the rows does not matter, an entry
  outside a window contributes nothing to its mean, and the mean of an empty window is 0.
\<close>

theorem period_windows_of_the_code:
  "(get_dashboard_stats ok today uid d = Some s \<longrightarrow>
      recent_avg s = window_mean (\<lambda>dt. today - 30 \<le> dt) (user_rows uid d)
    \<and> previous_avg s =
        window_mean (\<lambda>dt. today - 60 \<le> dt \<and> dt < today - 30) (user_rows uid d))
   \<and> window_mean w rows = window_mean w (filter (\<lambda>r. w (cf_date r)) rows)
   \<and> (filter (\<lambda>r. w (cf_date r)) rows = [] \<longrightarrow> window_mean w rows = 0)"
proof -
  have "window_mean w rows = window_mean w (filter (\<lambda>r. w (cf_date r)) rows)"
    by (simp add: window_mean_def Let_def)
  moreover have "filter (\<lambda>r. w (cf_date r)) rows = [] \<longrightarrow> window_mean w rows = 0"
    by (simp add: window_mean_def Let_def)
  ultimately show ?thesis
    using dashboard_windows by blast
qed

theorem period_windows_of_the_code_witness:
  "map_option recent_avg (get_dashboard_stats True 100 1 history_db) = Some 15
   \<and> map_option previous_avg (get_dashboard_stats True 100 1 history_db) = Some 30
   \<and> window_mean (\<lambda>dt. 100 - 30 \<le> dt) (user_rows 1 history_db) = 15
   \<and> window_mean (\<lambda>dt. 100 - 60 \<le> dt \<and> dt < 100 - 30) (user_rows 1 history_db) = 30
   \<and> window_mean (\<lambda>dt. dt < 0) (user_rows 1 history_db) = 0"
proof -
  have "user_rows 1 history_db \<noteq> []"
    by (simp add: history_rows)
  from dashboard_Some [OF this] obtain s where s: "get_dashboard_stats True 100 1 history_db = Some s"
    by blast
  have m: "window_mean (\<lambda>dt. 70 \<le> dt) (user_rows 1 history_db) = 15"
    "window_mean (\<lambda>dt. 40 \<le> dt \<and> dt < 70) (user_rows 1 history_db) = 30"
    by (simp_all add: history_rows window_mean_def mean_def entry_row_fields)
  have e: "filter (\<lambda>r. cf_date r < 0) (user_rows 1 history_db) = []"
    by (simp add: history_rows entry_row_fields)
  show ?thesis
    using period_windows_of_the_code [of True 100 1 history_db s "\<lambda>dt. dt < 0" "user_rows 1 history_db"]
    by (simp add: s m e)
qed

text \<open>
  Claim C5. In the statistics \<open>get_dashboard_stats\<close> returns, the trend is
  \<open>improving\<close> exactly when the recent mean is less than the previous mean, \<open>worsening\<close>
  exactly when it is greater and \<open>stable\<close> exactly when they are equal. A previous
  window without entries gives a previous mean of 0, and a previous mean of 0 with a positive
  recent mean gives \<open>worsening\<close>.
\<close>

theorem trend_of_the_means:
  "get_dashboard_stats ok today uid d = Some s \<longrightarrow>
      (trend s = ''improving'' \<longleftrightarrow> recent_avg s < previous_avg s)
    \<and> (trend s = ''worsening'' \<longleftrightarrow> recent_avg s > previous_avg s)
    \<and> (trend s = ''stable'' \<longleftrightarrow> recent_avg s = previous_avg s)
    \<and> (filter (\<lambda>r. today - 60 \<le> cf_date r \<and> cf_date r < today - 30) (user_rows uid d) = []
         \<longrightarrow> previous_avg s = 0)
    \<and> (previous_avg s = 0 \<and> 0 < recent_avg s \<longrightarrow> trend s = ''worsening'')"
proof
  assume a: "get_dashboard_stats ok today uid d = Some s"
  have t: "trend s = (if recent_avg s < previous_avg s then ''improving''
                      else if recent_avg s > previous_avg s then ''worsening'' else ''stable'')"
    by (rule dashboard_fields(3) [OF a])
  have p: "filter (\<lambda>r. today - 60 \<le> cf_date r \<and> cf_date r < today - 30) (user_rows uid d) = []
             \<longrightarrow> previous_avg s = 0"
    by (simp add: dashboard_windows(2) [OF a] window_mean_def Let_def)
  have c: "(trend s = ''improving'' \<longleftrightarrow> recent_avg s < previous_avg s)
    \<and> (trend s = ''worsening'' \<longleftrightarrow> recent_avg s > previous_avg s)
    \<and> (trend s = ''stable'' \<longleftrightarrow> recent_avg s = previous_avg s)
    \<and> (previous_avg s = 0 \<and> 0 < recent_avg s \<longrightarrow> trend s = ''worsening'')"
    unfolding t by auto
  show "(trend s = ''improving'' \<longleftrightarrow> recent_avg s < previous_avg s)
    \<and> (trend s = ''worsening'' \<longleftrightarrow> recent_avg s > previous_avg s)
    \<and> (trend s = ''stable'' \<longleftrightarrow> recent_avg s = previous_avg s)
    \<and> (filter (\<lambda>r. today - 60 \<le> cf_date r \<and> cf_date r < today - 30) (user_rows uid d) = []
         \<longrightarrow> previous_avg s = 0)
    \<and> (previous_avg s = 0 \<and> 0 < recent_avg s \<longrightarrow> trend s = ''worsening'')"
    using p c by blast
qed

theorem trend_of_the_means_witness:
  "map_option trend (get_dashboard_stats True 100 1 history_db) = Some ''improving''
   \<and> map_option trend (get_dashboard_stats True 100 1 future_db) = Some ''worsening''
   \<and> map_option previous_avg (get_dashboard_stats True 100 1 future_db) = Some 0
   \<and> map_option recent_avg (get_dashboard_stats True 100 1 future_db) = Some 20
   \<and> map_option trend (get_dashboard_stats True 100 1 boundary_db) = Some ''worsening''"
proof -
  have h: "user_rows 1 history_db \<noteq> []" and f: "user_rows 1 future_db \<noteq> []"
    and b: "user_rows 1 boundary_db \<noteq> []"
    by (simp_all add: history_rows future_rows boundary_rows)
  from dashboard_Some [OF h] obtain sh where sh: "get_dashboard_stats True 100 1 history_db = Some sh"
    by blast
  from dashboard_Some [OF f] obtain sf where sf: "get_dashboard_stats True 100 1 future_db = Some sf"
    by blast
  from dashboard_Some [OF b] obtain sb where sb: "get_dashboard_stats True 100 1 boundary_db = Some sb"
    by blast
  have mh: "recent_avg sh = 15" "previous_avg sh = 30"
    by (simp_all add: dashboard_windows [OF sh] history_rows window_mean_def mean_def
        entry_row_fields)
  have mf: "recent_avg sf = 20" "previous_avg sf = 0"
    by (simp_all add: dashboard_windows [OF sf] future_rows window_mean_def mean_def
        entry_row_fields)
  have mb: "recent_avg sb = 10" "previous_avg sb = 0"
    by (simp_all add: dashboard_windows [OF sb] boundary_rows window_mean_def mean_def
        entry_row_fields)
  show ?thesis
    using trend_of_the_means [of True 100 1 history_db sh]
      trend_of_the_means [of True 100 1 future_db sf]
      trend_of_the_means [of True 100 1 boundary_db sb]
    by (simp add: sh sf sb mh mf mb)
qed

end
